theory Spec2Isabelle
  imports Complex_Main
begin

section \<open>JavaScript values as the handlers see them\<close>

text \<open>
  The service of \<^verbatim>\<open>src/unnamed/part_003\<close> is an Express application with three
  routes. A request body reaches the handler after \<^verbatim>\<open>express.json\<close> has parsed it, so the
  values the handler touches are parsed JSON values. \<open>JObj\<close> lists the own properties of
  an object (a key is looked up at its first binding). \<open>JNum\<close> carries an integer: the
  handler only tests numbers for being zero and prints them, and the model is restricted
  to the integers that JavaScript prints in plain decimal notation.

  JavaScript's \<^verbatim>\<open>undefined\<close> is not a JSON value; a value that may be undefined is a
  \<open>json option\<close>, with \<open>None\<close> for \<^verbatim>\<open>undefined\<close>.
\<close>

datatype json =
    JNull
  | JBool bool
  | JNum int
  | JStr string
  | JArr "json list"
  | JObj "(string \<times> json) list"

type_synonym jsval = "json option"

datatype js_error = TypeError

text \<open>
  Property read \<^verbatim>\<open>v.k\<close> for the keys the handler reads (\<^verbatim>\<open>userId\<close>, \<^verbatim>\<open>messages\<close>,
  \<^verbatim>\<open>complexity\<close>, \<^verbatim>\<open>priority\<close>, \<^verbatim>\<open>forceFresh\<close>, \<^verbatim>\<open>content\<close>): none of them is inherited
  from a prototype, so only an object's own properties can answer. Reading a property of
  \<^verbatim>\<open>null\<close> throws and is handled where it occurs.
\<close>

fun own_prop :: "json \<Rightarrow> string \<Rightarrow> jsval" where
  "own_prop (JObj kvs) k = map_of kvs k"
| "own_prop _ k = None"

text \<open>Truthiness (\<^verbatim>\<open>!!v\<close>).\<close>

fun truthy :: "jsval \<Rightarrow> bool" where
  "truthy None = False"
| "truthy (Some JNull) = False"
| "truthy (Some (JBool b)) = b"
| "truthy (Some (JNum n)) = (n \<noteq> 0)"
| "truthy (Some (JStr s)) = (s \<noteq> [])"
| "truthy (Some (JArr xs)) = True"
| "truthy (Some (JObj kvs)) = True"

text \<open>\<^verbatim>\<open>Array.isArray(v)\<close>.\<close>

fun isArray :: "jsval \<Rightarrow> bool" where
  "isArray (Some (JArr xs)) = True"
| "isArray _ = False"

text \<open>Decimal rendering of an integer.\<close>

definition digit_char :: "nat \<Rightarrow> char" where
  "digit_char d = ''0123456789'' ! d"

fun digits :: "nat \<Rightarrow> string" where
  "digits n = (if n < 10 then [digit_char n] else digits (n div 10) @ [digit_char (n mod 10)])"

declare digits.simps [simp del]

definition show_int :: "int \<Rightarrow> string" where
  "show_int i = (if i < 0 then CHR ''-'' # digits (nat (- i)) else digits (nat i))"

text \<open>
  \<^verbatim>\<open>ToString\<close>, as a template literal and a computed property key apply it. A plain
  object answers \<^verbatim>\<open>[object Object]\<close> through \<^verbatim>\<open>Object.prototype.toString\<close>; a parsed
  object with an own property \<^verbatim>\<open>toString\<close> shadows that method with a value that is
  not callable, and then the conversion throws a \<^verbatim>\<open>TypeError\<close>. An array is joined
  with commas, \<^verbatim>\<open>null\<close> elements printing as the empty string.
\<close>

fun to_string :: "json \<Rightarrow> js_error + string"
  and join_elems :: "json list \<Rightarrow> js_error + string" where
  "to_string JNull = Inr ''null''"
| "to_string (JBool b) = Inr (if b then ''true'' else ''false'')"
| "to_string (JNum n) = Inr (show_int n)"
| "to_string (JStr s) = Inr s"
| "to_string (JArr xs) = join_elems xs"
| "to_string (JObj kvs) =
     (if map_of kvs ''toString'' = None then Inr ''[object Object]'' else Inl TypeError)"
| "join_elems [] = Inr ''''"
| "join_elems (x # xs) =
     (case (if x = JNull then Inr '''' else to_string x) of
        Inl e \<Rightarrow> Inl e
      | Inr a \<Rightarrow>
          (if xs = [] then Inr a
           else (case join_elems xs of Inl e \<Rightarrow> Inl e | Inr b \<Rightarrow> Inr (a @ '','' @ b))))"

fun to_str :: "jsval \<Rightarrow> js_error + string" where
  "to_str None = Inr ''undefined''"
| "to_str (Some v) = to_string v"

text \<open>\<^verbatim>\<open>a || b\<close>.\<close>

definition js_or :: "jsval \<Rightarrow> jsval \<Rightarrow> jsval" where
  "js_or a b = (if truthy a then a else b)"

section \<open>The process environment and the server state\<close>

text \<open>
  What a handler reads from outside during one request: the clock, the two API keys of
  \<^verbatim>\<open>process.env\<close>, the uptime, and whether \<^verbatim>\<open>fs.appendFileSync\<close> succeeds. The only
  thing the handlers change is the log file. Output on the console is not part of the
  state.
\<close>

record io =
  request_stamp :: string
  request_log_ok :: bool
  start_ms :: int
  end_ms :: int
  handler_stamp :: string
  handler_stamp2 :: string
  handler_log_ok :: bool
  OPENAI_API_KEY :: "string option"
  GEMINI_API_KEY :: "string option"
  process_uptime :: real

record server =
  log_file :: "string list"

record 'b reply =
  code :: nat
  body :: 'b

definition newline :: string where
  "newline = [CHR 0x0A]"

definition appendFileSync :: "string \<Rightarrow> server \<Rightarrow> server" where
  "appendFileSync line s = s\<lparr>log_file := log_file s @ [line]\<rparr>"

section \<open>GET /health\<close>

record services =
  openai :: string
  gemini :: string

record health =
  status :: string
  timestamp :: string
  services :: services
  uptime :: real

text \<open>\<^verbatim>\<open>!!process.env.KEY\<close>: an environment variable is a string or undefined.\<close>

fun env_set :: "string option \<Rightarrow> bool" where
  "env_set None = False"
| "env_set (Some v) = (v \<noteq> [])"

definition get_health :: "io \<Rightarrow> health reply" where
  "get_health e =
     (let openaiAvailable = env_set (OPENAI_API_KEY e);
          geminiAvailable = env_set (GEMINI_API_KEY e);
          st = (if openaiAvailable \<or> geminiAvailable then 200 else 503 :: nat)
      in \<lparr>code = st,
          body = \<lparr>status = (if st = 200 then ''healthy'' else ''degraded''),
                   timestamp = handler_stamp e,
                   services = \<lparr>openai = (if openaiAvailable then ''available'' else ''unavailable''),
                               gemini = (if geminiAvailable then ''available'' else ''unavailable'')\<rparr>,
                   uptime = process_uptime e\<rparr>\<rparr>)"

section \<open>GET /stats\<close>

record queue_sizes =
  critical :: int
  high :: int
  normal :: int
  low :: int

record cache_stats =
  hits :: int
  misses :: int
  cache_size :: int
  diskSize :: int
  fingerprintHits :: int
  createdAt :: string
  lastCleanup :: string

record stats =
  activePrompts :: int
  queueSizes :: queue_sizes
  isProcessingBatch :: bool
  cache :: cache_stats

definition get_stats :: "io \<Rightarrow> stats reply" where
  "get_stats e =
     \<lparr>code = 200,
      body = \<lparr>activePrompts = 0,
               queueSizes = \<lparr>critical = 0, high = 0, normal = 0, low = 0\<rparr>,
               isProcessingBatch = False,
               cache = \<lparr>hits = 25, misses = 10, cache_size = 35, diskSize = 15,
                        fingerprintHits = 5,
                        createdAt = handler_stamp e,
                        lastCleanup = handler_stamp2 e\<rparr>\<rparr>\<rparr>"

section \<open>POST /generate\<close>

text \<open>
  The destructuring of \<^verbatim>\<open>req.body\<close> with its defaults: a default applies to a property
  that is undefined, not to one that is \<^verbatim>\<open>null\<close>.
\<close>

definition with_default :: "jsval \<Rightarrow> json \<Rightarrow> jsval" where
  "with_default v d = (case v of None \<Rightarrow> Some d | Some x \<Rightarrow> Some x)"

text \<open>\<^verbatim>\<open>messages[messages.length - 1]?.content\<close>, for \<^verbatim>\<open>messages\<close> an array.\<close>

fun last_content :: "jsval \<Rightarrow> jsval" where
  "last_content (Some (JArr ms)) =
     (if ms = [] then None
      else (case last ms of JNull \<Rightarrow> None | m \<Rightarrow> own_prop m ''content''))"
| "last_content _ = None"

definition invalid_request :: "json reply" where
  "invalid_request =
     \<lparr>code = 400,
      body = JObj [(''error'', JStr ''Invalid request. Required fields: userId, messages (array)'')]\<rparr>"

definition failed_response :: "json reply" where
  "failed_response =
     \<lparr>code = 500, body = JObj [(''error'', JStr ''Failed to generate AI response'')]\<rparr>"

text \<open>
  \<^verbatim>\<open>res.json\<close> serialises with \<^verbatim>\<open>JSON.stringify\<close>, which leaves out a property whose
  value is undefined.
\<close>

definition field :: "string \<Rightarrow> jsval \<Rightarrow> (string \<times> json) list" where
  "field k v = (case v of None \<Rightarrow> [] | Some x \<Rightarrow> [(k, x)])"

definition modelUsed :: "jsval \<Rightarrow> string" where
  "modelUsed complexity = (if complexity = Some (JStr ''high'') then ''gpt-4o'' else ''gpt-3.5-turbo'')"

definition success_response :: "string \<Rightarrow> jsval \<Rightarrow> int \<Rightarrow> jsval \<Rightarrow> json reply" where
  "success_response text complexity duration forceFresh =
     \<lparr>code = 200,
      body = JObj [(''response'', JStr text),
                   (''metadata'',
                    JObj (field ''complexity'' complexity @
                          [(''processingTime'', JNum duration),
                           (''modelUsed'', JStr (modelUsed complexity)),
                           (''cached'', JBool (\<not> truthy forceFresh))]))]\<rparr>"

text \<open>
  The three template literals of the handler. Each converts its holes from left to
  right and throws when one conversion throws.
\<close>

definition console_line :: "int \<Rightarrow> jsval \<Rightarrow> jsval \<Rightarrow> js_error + string" where
  "console_line duration complexity priority =
     (case to_str complexity of Inl e \<Rightarrow> Inl e | Inr c \<Rightarrow>
      (case to_str priority of Inl e \<Rightarrow> Inl e | Inr p \<Rightarrow>
         Inr (''Generated response in '' @ show_int duration @ ''ms (complexity: '' @ c
              @ '', priority: '' @ p @ '')'')))"

definition log_line :: "string \<Rightarrow> jsval \<Rightarrow> jsval \<Rightarrow> int \<Rightarrow> js_error + string" where
  "log_line stamp userId complexity duration =
     (case to_str userId of Inl e \<Rightarrow> Inl e | Inr u \<Rightarrow>
      (case to_str complexity of Inl e \<Rightarrow> Inl e | Inr c \<Rightarrow>
         Inr (stamp @ '' - Generated response for user '' @ u @ '', complexity: '' @ c
              @ '', time: '' @ show_int duration @ ''ms'' @ newline)))"

definition response_text :: "jsval \<Rightarrow> js_error + string" where
  "response_text messages =
     (case to_str (js_or (last_content messages) (Some (JStr ''your query''))) of
        Inl e \<Rightarrow> Inl e
      | Inr c \<Rightarrow> Inr (''This is a test response to: \"'' @ c @ ''\"''))"

text \<open>
  The handler. Every throw inside its \<^verbatim>\<open>try\<close> block ends in the \<^verbatim>\<open>catch\<close> that answers
  500: the destructuring of a \<^verbatim>\<open>null\<close> body, the property key
  \<^verbatim>\<open>processingTimes[complexity]\<close>, the conversions inside the template literals, and a
  failing \<^verbatim>\<open>fs.appendFileSync\<close>. The value read from \<^verbatim>\<open>processingTimes\<close> only sets the
  length of the timer wait under \<^verbatim>\<open>forceFresh\<close>; the wait lets time pass and nothing
  else, and the model takes both readings of the clock from the environment.
\<close>

definition post_generate :: "io \<Rightarrow> json \<Rightarrow> server \<Rightarrow> json reply \<times> server" where
  "post_generate e req_body s =
     (if req_body = JNull then (failed_response, s)
      else
        let userId = own_prop req_body ''userId'';
            messages = own_prop req_body ''messages'';
            complexity = own_prop req_body ''complexity'';
            priority = own_prop req_body ''priority'';
            responseFormat = with_default (own_prop req_body ''responseFormat'') (JStr ''text'');
            forceFresh = with_default (own_prop req_body ''forceFresh'') (JBool False)
        in
          if \<not> truthy userId \<or> \<not> truthy messages \<or> \<not> isArray messages
          then (invalid_request, s)
          else
            (case to_str complexity of
               Inl err \<Rightarrow> (failed_response, s)
             | Inr key \<Rightarrow>
                 let duration = end_ms e - start_ms e in
                 (case console_line duration complexity priority of
                    Inl err \<Rightarrow> (failed_response, s)
                  | Inr printed \<Rightarrow>
                      (case log_line (handler_stamp e) userId complexity duration of
                         Inl err \<Rightarrow> (failed_response, s)
                       | Inr line \<Rightarrow>
                           if \<not> handler_log_ok e then (failed_response, s)
                           else
                             let s' = appendFileSync line s in
                             (case response_text messages of
                                Inl err \<Rightarrow> (failed_response, s')
                              | Inr text \<Rightarrow>
                                  (success_response text complexity duration forceFresh, s'))))))"

section \<open>The application: request logging, then routing\<close>

datatype request = GetHealth | PostGenerate json | GetStats

datatype response = Health "health reply" | Generate "json reply" | Stats "stats reply"

fun method_path :: "request \<Rightarrow> string" where
  "method_path GetHealth = ''GET /health''"
| "method_path (PostGenerate b) = ''POST /generate''"
| "method_path GetStats = ''GET /stats''"

text \<open>The logging middleware catches a failing append and goes on.\<close>

definition request_logging :: "io \<Rightarrow> request \<Rightarrow> server \<Rightarrow> server" where
  "request_logging e r s =
     (let logEntry = request_stamp e @ '' - '' @ method_path r in
      if request_log_ok e then appendFileSync (logEntry @ newline) s else s)"

fun route :: "io \<Rightarrow> request \<Rightarrow> server \<Rightarrow> response \<times> server" where
  "route e GetHealth s = (Health (get_health e), s)"
| "route e (PostGenerate b) s = (case post_generate e b s of (r, s') \<Rightarrow> (Generate r, s'))"
| "route e GetStats s = (Stats (get_stats e), s)"

definition handle :: "io \<Rightarrow> request \<Rightarrow> server \<Rightarrow> response \<times> server" where
  "handle e r s = route e r (request_logging e r s)"

text \<open>A sequence of requests, each with the environment it meets.\<close>

fun serve :: "(io \<times> request) list \<Rightarrow> server \<Rightarrow> response list \<times> server" where
  "serve [] s = ([], s)"
| "serve ((e, r) # rest) s =
     (case handle e r s of (out, s') \<Rightarrow>
        (case serve rest s' of (outs, s'') \<Rightarrow> (out # outs, s'')))"

text \<open>Reading a reply: a top-level property of the body and a property of its metadata.\<close>

definition body_field :: "json reply \<Rightarrow> string \<Rightarrow> jsval" where
  "body_field r k = own_prop (body r) k"

definition metadata_field :: "json reply \<Rightarrow> string \<Rightarrow> jsval" where
  "metadata_field r k = (case own_prop (body r) ''metadata'' of None \<Rightarrow> None | Some m \<Rightarrow> own_prop m k)"

fun isString :: "jsval \<Rightarrow> bool" where
  "isString (Some (JStr s)) = True"
| "isString _ = False"

fun isNumber :: "jsval \<Rightarrow> bool" where
  "isNumber (Some (JNum n)) = True"
| "isNumber _ = False"

fun isBoolean :: "jsval \<Rightarrow> bool" where
  "isBoolean (Some (JBool b)) = True"
| "isBoolean _ = False"

text \<open>A conversion to a string that does not throw.\<close>

definition printable :: "jsval \<Rightarrow> bool" where
  "printable v = (case to_str v of Inl e \<Rightarrow> False | Inr t \<Rightarrow> True)"

section \<open>The batch queue of the adaptive service\<close>

text \<open>
  Modelled from the spec: the batch and priority queue of the adaptive AI service
  (\<^verbatim>\<open>server/adaptive-ai-service\<close>), which the test script
  \<^verbatim>\<open>src/unnamed/part_006\<close> drives and whose code is not among the sources. The spec
  (sections 3, 4.3 and 5) gives: a queue item carries a request, a priority tier among
  critical, high, normal and low, and an enqueue time; a critical item is processed
  synchronously and never queued; any other item is appended to the ordered sequence of
  its tier; a flush tick drains the queues strictly in tier priority order, high fully
  before normal and normal before low, up to a batch size limit per tick. The position
  and the estimated wait of the enqueue result, retries and cancellation are left out:
  the spec does not say how the first two are computed, and the last two concern failing
  and cancelled items only.
\<close>

datatype tier = Critical | High | Normal | Low

record 'r queue_item =
  request :: 'r
  priority :: tier
  enqueueTime :: nat

record 'r batch_queue =
  high_queue :: "'r queue_item list"
  normal_queue :: "'r queue_item list"
  low_queue :: "'r queue_item list"

definition empty_queue :: "'r batch_queue" where
  "empty_queue = \<lparr>high_queue = [], normal_queue = [], low_queue = []\<rparr>"

text \<open>
  Modelled from the spec: \<^verbatim>\<open>enqueue(item)\<close> of the absent batch queue (section 4.3). It
  answers whether the item was queued, with the queue after it: a critical item is not
  queued, any other is appended to the sequence of its tier.
\<close>

definition enqueue :: "'r queue_item \<Rightarrow> 'r batch_queue \<Rightarrow> bool \<times> 'r batch_queue" where
  "enqueue item q =
     (case priority item of
        Critical \<Rightarrow> (False, q)
      | High \<Rightarrow> (True, q\<lparr>high_queue := high_queue q @ [item]\<rparr>)
      | Normal \<Rightarrow> (True, q\<lparr>normal_queue := normal_queue q @ [item]\<rparr>)
      | Low \<Rightarrow> (True, q\<lparr>low_queue := low_queue q @ [item]\<rparr>))"

fun enqueue_all :: "'r queue_item list \<Rightarrow> 'r batch_queue \<Rightarrow> 'r batch_queue" where
  "enqueue_all [] q = q"
| "enqueue_all (item # items) q = enqueue_all items (snd (enqueue item q))"

definition queued_count :: "'r batch_queue \<Rightarrow> nat" where
  "queued_count q = length (high_queue q) + length (normal_queue q) + length (low_queue q)"

text \<open>
  Modelled from the spec: one flush tick of the absent batch queue (section 4.3), with
  the batch it services, in service order, and the queue it leaves. High is drained
  before normal and normal before low, up to the batch size limit of the tick.
\<close>

definition flush :: "nat \<Rightarrow> 'r batch_queue \<Rightarrow> 'r queue_item list \<times> 'r batch_queue" where
  "flush limit q =
     (let hs = take limit (high_queue q);
          ns = take (limit - length hs) (normal_queue q);
          ls = take (limit - length hs - length ns) (low_queue q)
      in (hs @ ns @ ls,
          \<lparr>high_queue = drop (length hs) (high_queue q),
           normal_queue = drop (length ns) (normal_queue q),
           low_queue = drop (length ls) (low_queue q)\<rparr>))"

lemma flush_shrinks:
  "0 < limit \<Longrightarrow> 0 < queued_count q \<Longrightarrow> queued_count (snd (flush limit q)) < queued_count q"
  by (auto simp: flush_def queued_count_def Let_def)

text \<open>
  Modelled from the spec: the periodic ticks of the absent batch queue (section 4.3),
  following one another until the queue is empty, one batch per tick.
\<close>

function drain :: "nat \<Rightarrow> 'r batch_queue \<Rightarrow> 'r queue_item list list" where
  "drain limit q =
     (if limit = 0 \<or> queued_count q = 0 then []
      else fst (flush limit q) # drain limit (snd (flush limit q)))"
  by pat_completeness auto
termination
  by (relation "measure (\<lambda>(limit, q). queued_count q)") (auto simp: flush_shrinks)

declare drain.simps [simp del]

section \<open>Sample inputs\<close>

text \<open>An environment, a log and request bodies on which the theorems below are run.\<close>

definition sample_io :: io where
  "sample_io =
     \<lparr>request_stamp = ''2025-01-01T00:00:00.000Z'', request_log_ok = True,
      start_ms = 1000, end_ms = 1003,
      handler_stamp = ''2025-01-01T00:00:00.003Z'',
      handler_stamp2 = ''2025-01-01T00:00:00.004Z'',
      handler_log_ok = True,
      OPENAI_API_KEY = None, GEMINI_API_KEY = Some ''key'',
      process_uptime = 3 / 2\<rparr>"

definition empty_log :: server where
  "empty_log = \<lparr>log_file = []\<rparr>"

definition snack_messages :: json where
  "snack_messages =
     JArr [JObj [(''role'', JStr ''user''), (''content'', JStr ''What are some healthy snacks?'')]]"

definition generate_body :: "json \<Rightarrow> (string \<times> json) list \<Rightarrow> json" where
  "generate_body uid extra = JObj ([(''userId'', uid), (''messages'', snack_messages)] @ extra)"

definition sample_traffic :: "(io \<times> request) list" where
  "sample_traffic =
     [(sample_io, PostGenerate (generate_body (JNum 1)
         [(''priority'', JStr ''critical''), (''forceFresh'', JBool True)])),
      (sample_io, GetStats),
      (sample_io, GetHealth)]"

definition sample_items :: "nat queue_item list" where
  "sample_items =
     [\<lparr>request = 1, priority = Low, enqueueTime = 0\<rparr>,
      \<lparr>request = 2, priority = High, enqueueTime = 1\<rparr>,
      \<lparr>request = 3, priority = Normal, enqueueTime = 2\<rparr>,
      \<lparr>request = 4, priority = High, enqueueTime = 3\<rparr>]"

section \<open>Facts about the generate handler\<close>

lemma isArray_truthy: "isArray v \<Longrightarrow> truthy v"
  by (cases v rule: isArray.cases) simp_all

lemma code_replies [simp]:
  "code invalid_request = 400" "code failed_response = 500"
  "code (success_response t c d f) = 200"
  by (simp_all add: invalid_request_def failed_response_def success_response_def)

lemma printable_Inr: "printable v = (\<exists>t. to_str v = Inr t)"
  by (simp add: printable_def split: sum.splits)

lemma post_generate_400:
  "(code (fst (post_generate e b s)) = 400)
     = (b \<noteq> JNull \<and> (\<not> truthy (own_prop b ''userId'') \<or> \<not> isArray (own_prop b ''messages'')))"
  by (auto simp: post_generate_def Let_def isArray_truthy split: sum.splits)

lemma post_generate_200:
  "(code (fst (post_generate e b s)) = 200)
     = (b \<noteq> JNull \<and> truthy (own_prop b ''userId'') \<and> isArray (own_prop b ''messages'')
        \<and> printable (own_prop b ''complexity'') \<and> printable (own_prop b ''priority'')
        \<and> printable (own_prop b ''userId'') \<and> handler_log_ok e
        \<and> printable (js_or (last_content (own_prop b ''messages'')) (Some (JStr ''your query''))))"
  by (auto simp: post_generate_def Let_def isArray_truthy printable_def console_line_def
      log_line_def response_text_def split: sum.splits)

lemma post_generate_success:
  "code (fst (post_generate e b s)) = 200 \<Longrightarrow>
   \<exists>t. fst (post_generate e b s) =
     success_response t (own_prop b ''complexity'') (end_ms e - start_ms e)
       (with_default (own_prop b ''forceFresh'') (JBool False))"
  by (auto simp: post_generate_def Let_def split: sum.splits if_splits)

lemma post_generate_codes:
  "code (fst (post_generate e b s)) = 200 \<or> code (fst (post_generate e b s)) = 400
   \<or> code (fst (post_generate e b s)) = 500"
  by (auto simp: post_generate_def Let_def split: sum.splits if_splits)

lemma post_generate_reply_indep:
  "fst (post_generate e b s) = fst (post_generate e b s')"
  by (auto simp: post_generate_def Let_def split: sum.splits if_splits)

lemma post_generate_log:
  "\<exists>extra. log_file (snd (post_generate e b s)) = log_file s @ extra"
  by (auto simp: post_generate_def Let_def appendFileSync_def split: sum.splits if_splits)

lemma metadata_success [simp]:
  "metadata_field (success_response t c d f) ''processingTime'' = Some (JNum d)"
  "metadata_field (success_response t c d f) ''modelUsed'' = Some (JStr (modelUsed c))"
  "metadata_field (success_response t c d f) ''cached'' = Some (JBool (\<not> truthy f))"
  "metadata_field (success_response t c d f) ''complexity'' = c"
  "metadata_field (success_response t c d f) ''queued'' = None"
  "body_field (success_response t c d f) ''response'' = Some (JStr t)"
  "body_field (success_response t c d f) ''queued'' = None"
  by (simp_all add: metadata_field_def body_field_def success_response_def field_def split: option.splits)

section \<open>Facts about a sequence of requests\<close>

lemma serve_length_aux: "serve reqs s = (outs, s') \<Longrightarrow> length outs = length reqs"
  by (induction reqs arbitrary: s outs s') (auto split: prod.splits)

lemma serve_length: "length (fst (serve reqs s)) = length reqs"
  using serve_length_aux [of reqs s "fst (serve reqs s)" "snd (serve reqs s)"] by simp

text \<open>The answer at position \<open>i\<close> is the answer of the handler to request \<open>i\<close>, in some state.\<close>

lemma serve_nth:
  "i < length reqs \<Longrightarrow>
   \<exists>s'. fst (serve reqs s) ! i = fst (handle (fst (reqs ! i)) (snd (reqs ! i)) s')"
proof (induction reqs arbitrary: s i)
  case Nil
  then show ?case by simp
next
  case (Cons a reqs)
  obtain e r where a: "a = (e, r)" by (cases a)
  obtain out s1 where h: "handle e r s = (out, s1)" by (cases "handle e r s")
  obtain outs s2 where t: "serve reqs s1 = (outs, s2)" by (cases "serve reqs s1")
  show ?case
  proof (cases i)
    case 0
    with a h t show ?thesis by (auto intro: exI [of _ s])
  next
    case (Suc j)
    with Cons.prems have "j < length reqs" by simp
    from Cons.IH [OF this, of s1] obtain s' where
      "fst (serve reqs s1) ! j = fst (handle (fst (reqs ! j)) (snd (reqs ! j)) s')" by blast
    with a h t Suc show ?thesis by auto
  qed
qed

text \<open>No answer depends on the log.\<close>

lemma handle_generate:
  "fst (handle e (PostGenerate b) s) = Generate (fst (post_generate e b s0))"
proof -
  have "fst (handle e (PostGenerate b) s)
          = Generate (fst (post_generate e b (request_logging e (PostGenerate b) s)))"
    by (simp add: handle_def split: prod.splits)
  also have "fst (post_generate e b (request_logging e (PostGenerate b) s))
          = fst (post_generate e b s0)"
    by (rule post_generate_reply_indep)
  finally show ?thesis .
qed

lemma handle_stats: "fst (handle e GetStats s) = Stats (get_stats e)"
  by (simp add: handle_def)

lemma handle_health: "fst (handle e GetHealth s) = Health (get_health e)"
  by (simp add: handle_def)

text \<open>The sample request is answered 200 unless a property given with it cannot be printed.\<close>

lemma sample_generate_ok:
  "code (fst (post_generate sample_io (generate_body (JNum 1) extra) empty_log)) = 200
     = (printable (map_of extra ''complexity'') \<and> printable (map_of extra ''priority''))"
  by (simp add: post_generate_200 generate_body_def snack_messages_def sample_io_def
        printable_def js_or_def show_int_def digits.simps)

lemma serve_two_generates:
  "fst (serve [(e1, PostGenerate b1), (e2, PostGenerate b2)] s)
     = [Generate (fst (post_generate e1 b1 s1)), Generate (fst (post_generate e2 b2 s2))]"
proof -
  obtain out sa where h1: "handle e1 (PostGenerate b1) s = (out, sa)"
    by (cases "handle e1 (PostGenerate b1) s")
  obtain out2 sb where h2: "handle e2 (PostGenerate b2) sa = (out2, sb)"
    by (cases "handle e2 (PostGenerate b2) sa")
  from h1 have "out = Generate (fst (post_generate e1 b1 s1))"
    using handle_generate [of e1 b1 s s1] by simp
  moreover from h2 have "out2 = Generate (fst (post_generate e2 b2 s2))"
    using handle_generate [of e2 b2 sa s2] by simp
  ultimately show ?thesis using h1 h2 by simp
qed

text \<open>No answer of the handler has a property \<^verbatim>\<open>queued\<close>.\<close>

lemma not_queued:
  "body_field (fst (post_generate e b s)) ''queued'' = None
   \<and> metadata_field (fst (post_generate e b s)) ''queued'' = None"
  by (auto simp: post_generate_def Let_def body_field_def metadata_field_def invalid_request_def
      failed_response_def success_response_def field_def split: sum.splits option.splits)

text \<open>The answers to a sequence, one request after the other.\<close>

lemma serve_Cons_fst:
  "fst (serve ((e, r) # rest) s) = fst (handle e r s) # fst (serve rest (snd (handle e r s)))"
  by (simp add: split_beta)

lemma serve_Nil_fst: "fst (serve [] s) = []"
  by simp

lemma sample_traffic_answers:
  "fst (serve sample_traffic empty_log)
     = [Generate (fst (post_generate sample_io (generate_body (JNum 1)
                    [(''priority'', JStr ''critical''), (''forceFresh'', JBool True)]) empty_log)),
        Stats (get_stats sample_io),
        Health (get_health sample_io)]"
  by (simp only: sample_traffic_def serve_Cons_fst serve_Nil_fst
      handle_generate [where ?s0.0 = empty_log] handle_stats handle_health)

section \<open>Facts about the batch queue\<close>

lemma enqueue_all_queues:
  "high_queue (enqueue_all items q) = high_queue q @ filter (\<lambda>i. priority i = High) items
   \<and> normal_queue (enqueue_all items q) = normal_queue q @ filter (\<lambda>i. priority i = Normal) items
   \<and> low_queue (enqueue_all items q) = low_queue q @ filter (\<lambda>i. priority i = Low) items"
  by (induction items arbitrary: q) (auto simp: enqueue_def split: tier.splits)

text \<open>A tick takes a prefix of the service order and leaves the rest in order.\<close>

lemma flush_order:
  "fst (flush limit q) @ high_queue (snd (flush limit q)) @ normal_queue (snd (flush limit q))
     @ low_queue (snd (flush limit q))
   = high_queue q @ normal_queue q @ low_queue q"
proof (cases "limit \<le> length (high_queue q)")
  case True
  then show ?thesis by (simp add: flush_def Let_def)
next
  case False
  then have h: "length (high_queue q) < limit" by simp
  show ?thesis
  proof (cases "limit - length (high_queue q) \<le> length (normal_queue q)")
    case True
    with h show ?thesis by (simp add: flush_def Let_def min_def)
  next
    case False
    with h show ?thesis by (simp add: flush_def Let_def min_def)
  qed
qed

lemma flush_length: "length (fst (flush limit q)) \<le> limit"
proof -
  have "min a limit + (min b (limit - min a limit) + min c (limit - (min a limit + min b (limit - min a limit))))
          \<le> limit" for a b c :: nat
    by arith
  then show ?thesis by (simp add: flush_def Let_def)
qed

lemma drain_concat:
  "0 < limit \<Longrightarrow> concat (drain limit q) = high_queue q @ normal_queue q @ low_queue q"
proof (induction limit q rule: drain.induct)
  case (1 limit q)
  show ?case
  proof (cases "queued_count q = 0")
    case True
    then show ?thesis by (simp add: drain.simps queued_count_def)
  next
    case False
    with 1 have "concat (drain limit (snd (flush limit q)))
        = high_queue (snd (flush limit q)) @ normal_queue (snd (flush limit q))
          @ low_queue (snd (flush limit q))"
      by simp
    with False "1.prems" flush_order [of limit q] show ?thesis
      by (simp add: drain.simps [of limit q])
  qed
qed

lemma drain_batches: "list_all (\<lambda>batch. length batch \<le> limit) (drain limit q)"
proof (induction limit q rule: drain.induct)
  case (1 limit q)
  then show ?case
    by (cases "limit = 0 \<or> queued_count q = 0") (simp_all add: drain.simps [of limit q] flush_length)
qed

section \<open>Sample runs of the generate handler\<close>

text \<open>
  A valid request, a request whose \<^verbatim>\<open>priority\<close> cannot be printed, a log that cannot be
  written, and the conversion of a nested array.
\<close>

lemma sample_answer:
  "post_generate sample_io (generate_body (JNum 1) [(''complexity'', JStr ''very_high'')]) empty_log
     = (\<lparr>code = 200,
         body = JObj [(''response'',
                       JStr ''This is a test response to: \"What are some healthy snacks?\"''),
                      (''metadata'',
                       JObj [(''complexity'', JStr ''very_high''),
                             (''processingTime'', JNum 3),
                             (''modelUsed'', JStr ''gpt-3.5-turbo''),
                             (''cached'', JBool True)])]\<rparr>,
        \<lparr>log_file = [''2025-01-01T00:00:00.003Z - Generated response for user 1, complexity: very_high, time: 3ms'' @ newline]\<rparr>)"
  by (simp add: post_generate_def Let_def generate_body_def snack_messages_def sample_io_def
      empty_log_def with_default_def console_line_def log_line_def response_text_def js_or_def
      success_response_def field_def modelUsed_def appendFileSync_def show_int_def digits.simps
      digit_char_def)

lemma sample_throw:
  "post_generate sample_io (generate_body (JNum 1) [(''priority'', JObj [(''toString'', JNum 1)])])
     empty_log = (failed_response, empty_log)"
  by (simp add: post_generate_def Let_def generate_body_def snack_messages_def sample_io_def
      empty_log_def with_default_def console_line_def log_line_def response_text_def js_or_def
      show_int_def digits.simps digit_char_def)

lemma sample_log_failure:
  "post_generate (sample_io\<lparr>handler_log_ok := False\<rparr>) (generate_body (JNum 1) []) empty_log
     = (failed_response, empty_log)"
  by (simp add: post_generate_def Let_def generate_body_def snack_messages_def sample_io_def
      empty_log_def with_default_def console_line_def log_line_def response_text_def js_or_def
      show_int_def digits.simps digit_char_def)

lemma sample_join:
  "to_string (JArr [JNum 1, JNull, JArr [JNum (- 25), JBool True], JObj []])
     = Inr ''1,,-25,true,[object Object]''"
  by (simp add: show_int_def digits.simps digit_char_def)

section \<open>GET /health: status and services\<close>

text \<open>
  C2. \<^verbatim>\<open>GET /health\<close> reports status degraded exactly when neither provider is
  available and healthy exactly when at least one is, and the services field reports the
  availability of each of the two providers. A provider is available when its API key is
  set to a non-empty string.
\<close>

theorem health_status_reports_providers:
  "(status (body (get_health e)) = ''degraded'')
     = (\<not> env_set (OPENAI_API_KEY e) \<and> \<not> env_set (GEMINI_API_KEY e))
   \<and> (status (body (get_health e)) = ''healthy'')
     = (env_set (OPENAI_API_KEY e) \<or> env_set (GEMINI_API_KEY e))
   \<and> (openai (services (body (get_health e))) = ''available'') = env_set (OPENAI_API_KEY e)
   \<and> (openai (services (body (get_health e))) = ''unavailable'') = (\<not> env_set (OPENAI_API_KEY e))
   \<and> (gemini (services (body (get_health e))) = ''available'') = env_set (GEMINI_API_KEY e)
   \<and> (gemini (services (body (get_health e))) = ''unavailable'') = (\<not> env_set (GEMINI_API_KEY e))"
  by (simp add: get_health_def Let_def)

theorem health_status_reports_providers_witness:
  "status (body (get_health sample_io)) = ''healthy''
   \<and> openai (services (body (get_health sample_io))) = ''unavailable''
   \<and> gemini (services (body (get_health sample_io))) = ''available''
   \<and> status (body (get_health (sample_io\<lparr>GEMINI_API_KEY := None\<rparr>))) = ''degraded''
   \<and> code (get_health (sample_io\<lparr>GEMINI_API_KEY := None\<rparr>)) = 503"
  using health_status_reports_providers [of sample_io]
    health_status_reports_providers [of "sample_io\<lparr>GEMINI_API_KEY := None\<rparr>"]
  by (simp add: sample_io_def get_health_def)

section \<open>POST /generate: a falsy userId\<close>

text \<open>
  C8. A \<^verbatim>\<open>POST /generate\<close> request whose \<^verbatim>\<open>userId\<close> is present but falsy (the number
  0, the empty string, false or null) is rejected with status 400: the validation tests
  the truthiness of \<^verbatim>\<open>userId\<close>, not its presence. Nothing is written to the log.
\<close>

theorem falsy_userId_rejected:
  assumes "own_prop b ''userId'' = Some v" and "\<not> truthy (Some v)"
  shows "fst (post_generate e b s) = invalid_request \<and> code (fst (post_generate e b s)) = 400
         \<and> snd (post_generate e b s) = s"
proof -
  from assms(1) have "b \<noteq> JNull" by auto
  with assms show ?thesis by (simp add: post_generate_def Let_def)
qed

theorem falsy_userId_rejected_witness:
  "own_prop (generate_body (JNum 0) []) ''userId'' = Some (JNum 0)
   \<and> code (fst (post_generate sample_io (generate_body (JNum 0) []) empty_log)) = 400
   \<and> own_prop (generate_body (JStr []) []) ''userId'' = Some (JStr [])
   \<and> code (fst (post_generate sample_io (generate_body (JStr []) []) empty_log)) = 400"
  using falsy_userId_rejected [of "generate_body (JNum 0) []" "JNum 0" sample_io empty_log]
    falsy_userId_rejected [of "generate_body (JStr []) []" "JStr []" sample_io empty_log]
  by (simp add: generate_body_def)

section \<open>POST /generate: validation and the shape of the answer\<close>

text \<open>
  C1, as the code has it. \<^verbatim>\<open>POST /generate\<close> answers 400 exactly when the body is not
  null and its \<^verbatim>\<open>userId\<close> is falsy (absent, null, false, 0 or the empty string) or its
  \<^verbatim>\<open>messages\<close> is not an array. For a body with a truthy \<^verbatim>\<open>userId\<close> and an array
  \<^verbatim>\<open>messages\<close> the validation branch is not taken and the answer is 200 or, when an
  exception reaches the catch block, 500. An answer 200 carries \<^verbatim>\<open>response\<close> and a
  \<^verbatim>\<open>metadata\<close> with \<^verbatim>\<open>processingTime\<close>, \<^verbatim>\<open>modelUsed\<close> and \<^verbatim>\<open>cached\<close>; its
  \<^verbatim>\<open>complexity\<close> is the one of the request, and is absent when the request has none.
\<close>

theorem validation_by_truthiness:
  "(code (fst (post_generate e b s)) = 400)
     = (b \<noteq> JNull \<and> (\<not> truthy (own_prop b ''userId'') \<or> \<not> isArray (own_prop b ''messages'')))
   \<and> (b \<noteq> JNull \<and> truthy (own_prop b ''userId'') \<and> isArray (own_prop b ''messages'')
        \<longrightarrow> code (fst (post_generate e b s)) = 200 \<or> code (fst (post_generate e b s)) = 500)
   \<and> (code (fst (post_generate e b s)) = 200
        \<longrightarrow> isString (body_field (fst (post_generate e b s)) ''response'')
          \<and> isNumber (metadata_field (fst (post_generate e b s)) ''processingTime'')
          \<and> isString (metadata_field (fst (post_generate e b s)) ''modelUsed'')
          \<and> isBoolean (metadata_field (fst (post_generate e b s)) ''cached'')
          \<and> metadata_field (fst (post_generate e b s)) ''complexity'' = own_prop b ''complexity'')"
proof (intro conjI impI)
  show "(code (fst (post_generate e b s)) = 400)
     = (b \<noteq> JNull \<and> (\<not> truthy (own_prop b ''userId'') \<or> \<not> isArray (own_prop b ''messages'')))"
    by (rule post_generate_400)
next
  assume "b \<noteq> JNull \<and> truthy (own_prop b ''userId'') \<and> isArray (own_prop b ''messages'')"
  then have "code (fst (post_generate e b s)) \<noteq> 400" by (simp add: post_generate_400)
  with post_generate_codes [of e b s]
  show "code (fst (post_generate e b s)) = 200 \<or> code (fst (post_generate e b s)) = 500"
    by blast
next
  assume ok: "code (fst (post_generate e b s)) = 200"
  from post_generate_success [OF ok] obtain t where
    r: "fst (post_generate e b s)
       = success_response t (own_prop b ''complexity'') (end_ms e - start_ms e)
           (with_default (own_prop b ''forceFresh'') (JBool False))"
    by blast
  show "isString (body_field (fst (post_generate e b s)) ''response'')" by (simp add: r)
  show "isNumber (metadata_field (fst (post_generate e b s)) ''processingTime'')" by (simp add: r)
  show "isString (metadata_field (fst (post_generate e b s)) ''modelUsed'')" by (simp add: r)
  show "isBoolean (metadata_field (fst (post_generate e b s)) ''cached'')" by (simp add: r)
  show "metadata_field (fst (post_generate e b s)) ''complexity'' = own_prop b ''complexity''"
    by (simp add: r)
qed

theorem validation_by_truthiness_witness:
  "code (fst (post_generate sample_io (generate_body (JNum 1) [(''complexity'', JStr ''low'')]) empty_log)) = 200
   \<and> isString (body_field (fst (post_generate sample_io (generate_body (JNum 1) [(''complexity'', JStr ''low'')]) empty_log)) ''response'')
   \<and> isBoolean (metadata_field (fst (post_generate sample_io (generate_body (JNum 1) [(''complexity'', JStr ''low'')]) empty_log)) ''cached'')
   \<and> metadata_field (fst (post_generate sample_io (generate_body (JNum 1) [(''complexity'', JStr ''low'')]) empty_log)) ''complexity'' = Some (JStr ''low'')
   \<and> code (fst (post_generate sample_io (JObj [(''userId'', JNum 1)]) empty_log)) = 400"
proof -
  let ?b = "generate_body (JNum 1) [(''complexity'', JStr ''low'')]"
  have ok: "code (fst (post_generate sample_io ?b empty_log)) = 200"
    by (simp add: post_generate_200 generate_body_def snack_messages_def sample_io_def
        printable_def js_or_def show_int_def digits.simps)
  have c: "own_prop ?b ''complexity'' = Some (JStr ''low'')" by (simp add: generate_body_def)
  from validation_by_truthiness [of sample_io ?b empty_log] ok c
    validation_by_truthiness [of sample_io "JObj [(''userId'', JNum 1)]" empty_log]
  show ?thesis by simp
qed

text \<open>
  The claim as the spec words it, by presence, fails: a body that holds both properties,
  with \<^verbatim>\<open>userId\<close> the number 0, is answered 400; and a valid body without a
  \<^verbatim>\<open>complexity\<close> is answered 200 with a metadata that has no \<^verbatim>\<open>complexity\<close>.
\<close>

theorem validation_by_presence_counterexample:
  "\<not> ((code (fst (post_generate sample_io (generate_body (JNum 0) []) empty_log)) = 400)
        = (own_prop (generate_body (JNum 0) []) ''userId'' = None
           \<or> own_prop (generate_body (JNum 0) []) ''messages'' = None
           \<or> \<not> isArray (own_prop (generate_body (JNum 0) []) ''messages'')))
   \<and> own_prop (generate_body (JNum 1) []) ''userId'' = Some (JNum 1)
   \<and> isArray (own_prop (generate_body (JNum 1) []) ''messages'')
   \<and> code (fst (post_generate sample_io (generate_body (JNum 1) []) empty_log)) = 200
   \<and> metadata_field (fst (post_generate sample_io (generate_body (JNum 1) []) empty_log))
        ''complexity'' = None"
proof -
  have a: "code (fst (post_generate sample_io (generate_body (JNum 0) []) empty_log)) = 400"
    by (simp add: post_generate_400 generate_body_def)
  have b: "code (fst (post_generate sample_io (generate_body (JNum 1) []) empty_log)) = 200"
    by (simp add: post_generate_200 generate_body_def snack_messages_def sample_io_def
        printable_def js_or_def show_int_def digits.simps)
  from post_generate_success [OF b] obtain t where
    "fst (post_generate sample_io (generate_body (JNum 1) []) empty_log)
       = success_response t (own_prop (generate_body (JNum 1) []) ''complexity'')
           (end_ms sample_io - start_ms sample_io)
           (with_default (own_prop (generate_body (JNum 1) []) ''forceFresh'') (JBool False))"
    by blast
  then have c: "metadata_field (fst (post_generate sample_io (generate_body (JNum 1) []) empty_log))
        ''complexity'' = None"
    by (simp add: generate_body_def)
  from a b c show ?thesis by (simp add: generate_body_def snack_messages_def)
qed

section \<open>POST /generate: the model reported for a tier\<close>

text \<open>
  C3. What the handler reports for a complexity tier: \<^verbatim>\<open>modelUsed\<close> is \<^verbatim>\<open>gpt-4o\<close>
  when the request's \<^verbatim>\<open>complexity\<close> is the string \<^verbatim>\<open>high\<close> and \<^verbatim>\<open>gpt-3.5-turbo\<close>
  for every other value, and the request's \<^verbatim>\<open>complexity\<close> is reported back. The
  tier \<^verbatim>\<open>very_high\<close> therefore gets the model of the tier \<^verbatim>\<open>low\<close>, not the most
  capable one.
\<close>

theorem model_used_by_tier:
  assumes "code (fst (post_generate e b s)) = 200"
  shows "metadata_field (fst (post_generate e b s)) ''modelUsed''
           = Some (JStr (if own_prop b ''complexity'' = Some (JStr ''high'')
                         then ''gpt-4o'' else ''gpt-3.5-turbo''))
         \<and> metadata_field (fst (post_generate e b s)) ''complexity'' = own_prop b ''complexity''"
proof -
  from post_generate_success [OF assms] obtain t where
    "fst (post_generate e b s)
       = success_response t (own_prop b ''complexity'') (end_ms e - start_ms e)
           (with_default (own_prop b ''forceFresh'') (JBool False))"
    by blast
  then show ?thesis by (simp add: modelUsed_def)
qed

theorem model_used_by_tier_witness:
  "code (fst (post_generate sample_io (generate_body (JNum 1) [(''complexity'', JStr ''very_high'')]) empty_log)) = 200
   \<and> metadata_field (fst (post_generate sample_io (generate_body (JNum 1) [(''complexity'', JStr ''very_high'')]) empty_log)) ''modelUsed''
       = Some (JStr ''gpt-3.5-turbo'')
   \<and> code (fst (post_generate sample_io (generate_body (JNum 1) [(''complexity'', JStr ''low'')]) empty_log)) = 200
   \<and> metadata_field (fst (post_generate sample_io (generate_body (JNum 1) [(''complexity'', JStr ''low'')]) empty_log)) ''modelUsed''
       = Some (JStr ''gpt-3.5-turbo'')
   \<and> code (fst (post_generate sample_io (generate_body (JNum 1) [(''complexity'', JStr ''high'')]) empty_log)) = 200
   \<and> metadata_field (fst (post_generate sample_io (generate_body (JNum 1) [(''complexity'', JStr ''high'')]) empty_log)) ''modelUsed''
       = Some (JStr ''gpt-4o'')"
proof -
  have ok: "code (fst (post_generate sample_io (generate_body (JNum 1) [(''complexity'', JStr c)]) empty_log)) = 200" for c
    by (simp add: sample_generate_ok printable_def)
  have c: "own_prop (generate_body (JNum 1) [(''complexity'', JStr c)]) ''complexity'' = Some (JStr c)" for c
    by (simp add: generate_body_def)
  from model_used_by_tier [OF ok [of "''very_high''"]] model_used_by_tier [OF ok [of "''low''"]]
    model_used_by_tier [OF ok [of "''high''"]] ok
  show ?thesis by (simp add: c)
qed

section \<open>The batch queue: service order\<close>

text \<open>
  C4. Items enqueued on an empty queue are serviced by the flush ticks strictly by tier
  (every high item before every normal one, every normal one before every low one) and
  in enqueue order within a tier, with at most the batch limit of items per tick. For
  the tiers low, high, normal, high in that enqueue order the service order is high,
  high, normal, low. Critical items are never queued.
\<close>

theorem flush_serves_by_tier_then_fifo:
  assumes "0 < limit"
  shows "concat (drain limit (enqueue_all items empty_queue))
           = filter (\<lambda>i. priority i = High) items @ filter (\<lambda>i. priority i = Normal) items
             @ filter (\<lambda>i. priority i = Low) items
         \<and> list_all (\<lambda>batch. length batch \<le> limit) (drain limit (enqueue_all items empty_queue))"
  using drain_concat [OF assms, of "enqueue_all items empty_queue"]
    enqueue_all_queues [of items empty_queue] drain_batches [of limit "enqueue_all items empty_queue"]
  by (simp add: empty_queue_def)

theorem flush_serves_by_tier_then_fifo_witness:
  "map priority sample_items = [Low, High, Normal, High]
   \<and> map priority (concat (drain 4 (enqueue_all sample_items empty_queue)))
       = [High, High, Normal, Low]
   \<and> map request (concat (drain 4 (enqueue_all sample_items empty_queue))) = [2, 4, 3, 1]
   \<and> map request (concat (drain 3 (enqueue_all sample_items empty_queue))) = [2, 4, 3, 1]"
  using flush_serves_by_tier_then_fifo [of 4 sample_items]
    flush_serves_by_tier_then_fifo [of 3 sample_items]
  by (simp add: sample_items_def)

section \<open>POST /generate: the cached flag\<close>

text \<open>
  C5. Of two identical \<^verbatim>\<open>POST /generate\<close> requests with \<^verbatim>\<open>forceFresh: false\<close>, sent one
  after the other, the second, when it is answered 200, has \<^verbatim>\<open>metadata.cached\<close> equal to
  true.
\<close>

theorem second_identical_request_cached:
  assumes "own_prop b ''forceFresh'' = Some (JBool False)"
    and "fst (serve [(e1, PostGenerate b), (e2, PostGenerate b)] s) = [first, Generate g]"
    and "code g = 200"
  shows "metadata_field g ''cached'' = Some (JBool True)"
proof -
  have "fst (serve [(e1, PostGenerate b), (e2, PostGenerate b)] s) ! 1
          = Generate (fst (post_generate e2 b s))"
    using serve_nth [of 1 "[(e1, PostGenerate b), (e2, PostGenerate b)]" s]
    by (auto simp: handle_generate [where ?s0.0 = s])
  with assms(2) have g: "g = fst (post_generate e2 b s)" by simp
  with assms(3) have "code (fst (post_generate e2 b s)) = 200" by simp
  from post_generate_success [OF this] obtain t where
    "fst (post_generate e2 b s)
       = success_response t (own_prop b ''complexity'') (end_ms e2 - start_ms e2)
           (with_default (own_prop b ''forceFresh'') (JBool False))"
    by blast
  with g assms(1) show ?thesis by (simp add: with_default_def)
qed

theorem second_identical_request_cached_witness:
  "own_prop (generate_body (JNum 1) [(''forceFresh'', JBool False)]) ''forceFresh'' = Some (JBool False)
   \<and> fst (serve [(sample_io, PostGenerate (generate_body (JNum 1) [(''forceFresh'', JBool False)])),
                 (sample_io, PostGenerate (generate_body (JNum 1) [(''forceFresh'', JBool False)]))]
            empty_log)
       = [Generate (fst (post_generate sample_io (generate_body (JNum 1) [(''forceFresh'', JBool False)]) empty_log)),
          Generate (fst (post_generate sample_io (generate_body (JNum 1) [(''forceFresh'', JBool False)]) empty_log))]
   \<and> code (fst (post_generate sample_io (generate_body (JNum 1) [(''forceFresh'', JBool False)]) empty_log)) = 200
   \<and> metadata_field (fst (post_generate sample_io (generate_body (JNum 1) [(''forceFresh'', JBool False)]) empty_log))
        ''cached'' = Some (JBool True)"
proof -
  let ?b = "generate_body (JNum 1) [(''forceFresh'', JBool False)]"
  let ?g = "fst (post_generate sample_io ?b empty_log)"
  have f: "own_prop ?b ''forceFresh'' = Some (JBool False)" by (simp add: generate_body_def)
  have s: "fst (serve [(sample_io, PostGenerate ?b), (sample_io, PostGenerate ?b)] empty_log)
             = [Generate ?g, Generate ?g]"
    by (rule serve_two_generates)
  have ok: "code ?g = 200" by (simp add: sample_generate_ok printable_def)
  from second_identical_request_cached [OF f s ok] f s ok show ?thesis by simp
qed

text \<open>
  C9. In every answer 200 of \<^verbatim>\<open>POST /generate\<close>, after any sequence of earlier requests,
  \<^verbatim>\<open>metadata.cached\<close> is the negation of the request's \<^verbatim>\<open>forceFresh\<close>: true when
  the request has no \<^verbatim>\<open>forceFresh\<close>, and otherwise true exactly when its value is falsy. The answer is the one the same request gets with no request before it, so the
  first request ever with \<^verbatim>\<open>forceFresh: false\<close> is reported cached; and the handler leaves
  the server as it was but for lines appended to the log: it looks nothing up and stores
  nothing.
\<close>

theorem cached_is_not_forceFresh:
  assumes "fst (handle e (PostGenerate b) (snd (serve history s))) = Generate g"
    and "code g = 200"
  shows "metadata_field g ''cached''
           = Some (JBool (case own_prop b ''forceFresh'' of
                            None \<Rightarrow> True
                          | Some flag \<Rightarrow> \<not> truthy (Some flag)))
       \<and> fst (handle e (PostGenerate b) s) = Generate g
       \<and> (\<exists>lines. log_file (snd (post_generate e b s)) = log_file s @ lines)"
proof -
  from assms(1) have g: "g = fst (post_generate e b s)"
    by (simp add: handle_generate [where ?s0.0 = s])
  with assms(2) have "code (fst (post_generate e b s)) = 200" by simp
  from post_generate_success [OF this] g
  have "metadata_field g ''cached''
           = Some (JBool (\<not> truthy (with_default (own_prop b ''forceFresh'') (JBool False))))"
    by auto
  then have "metadata_field g ''cached''
           = Some (JBool (case own_prop b ''forceFresh'' of
                            None \<Rightarrow> True
                          | Some flag \<Rightarrow> \<not> truthy (Some flag)))"
    by (simp add: with_default_def split: option.splits)
  moreover have "fst (handle e (PostGenerate b) s) = Generate g"
    by (simp add: g handle_generate [where ?s0.0 = s])
  ultimately show ?thesis using post_generate_log [of e b s] by simp
qed

theorem cached_is_not_forceFresh_witness:
  "fst (handle sample_io (PostGenerate (generate_body (JNum 1) [(''forceFresh'', JBool False)]))
         (snd (serve [] empty_log)))
     = Generate (fst (post_generate sample_io (generate_body (JNum 1) [(''forceFresh'', JBool False)]) empty_log))
   \<and> code (fst (post_generate sample_io (generate_body (JNum 1) [(''forceFresh'', JBool False)]) empty_log)) = 200
   \<and> metadata_field (fst (post_generate sample_io (generate_body (JNum 1) [(''forceFresh'', JBool False)]) empty_log))
        ''cached'' = Some (JBool True)
   \<and> fst (handle sample_io (PostGenerate (generate_body (JNum 1) [(''forceFresh'', JBool True)]))
         (snd (serve sample_traffic empty_log)))
     = Generate (fst (post_generate sample_io (generate_body (JNum 1) [(''forceFresh'', JBool True)]) empty_log))
   \<and> code (fst (post_generate sample_io (generate_body (JNum 1) [(''forceFresh'', JBool True)]) empty_log)) = 200
   \<and> metadata_field (fst (post_generate sample_io (generate_body (JNum 1) [(''forceFresh'', JBool True)]) empty_log))
        ''cached'' = Some (JBool False)
   \<and> code (fst (post_generate sample_io (generate_body (JNum 1) []) empty_log)) = 200
   \<and> metadata_field (fst (post_generate sample_io (generate_body (JNum 1) []) empty_log))
        ''cached'' = Some (JBool True)
   \<and> code (fst (post_generate sample_io (generate_body (JNum 1) [(''forceFresh'', JStr ''yes'')]) empty_log)) = 200
   \<and> metadata_field (fst (post_generate sample_io (generate_body (JNum 1) [(''forceFresh'', JStr ''yes'')]) empty_log))
        ''cached'' = Some (JBool False)"
proof -
  have h: "fst (handle sample_io (PostGenerate (generate_body (JNum 1) extra)) (snd (serve past empty_log)))
              = Generate (fst (post_generate sample_io (generate_body (JNum 1) extra) empty_log))"
    for extra past
    by (rule handle_generate)
  have ok: "code (fst (post_generate sample_io (generate_body (JNum 1) [(''forceFresh'', v)]) empty_log)) = 200"
    for v
    by (simp add: sample_generate_ok printable_def)
  have ok0: "code (fst (post_generate sample_io (generate_body (JNum 1) []) empty_log)) = 200"
    by (simp add: sample_generate_ok printable_def)
  have f: "own_prop (generate_body (JNum 1) [(''forceFresh'', v)]) ''forceFresh'' = Some v" for v
    by (simp add: generate_body_def)
  have f0: "own_prop (generate_body (JNum 1) []) ''forceFresh'' = None"
    by (simp add: generate_body_def)
  from cached_is_not_forceFresh [OF h [of "[(''forceFresh'', JBool False)]" "[]"] ok]
    cached_is_not_forceFresh [OF h [of "[(''forceFresh'', JBool True)]" sample_traffic] ok]
    cached_is_not_forceFresh [OF h [of "[(''forceFresh'', JStr ''yes'')]" "[]"] ok]
    cached_is_not_forceFresh [OF h [of "[]" "[]"] ok0]
    h ok ok0
  show ?thesis by (simp add: f f0)
qed

section \<open>POST /generate: the reported complexity\<close>

text \<open>
  C7. Two \<^verbatim>\<open>POST /generate\<close> requests with the same \<^verbatim>\<open>messages\<close> and the same optional
  \<^verbatim>\<open>complexity\<close>, each after any sequence of earlier requests, in any environment and
  whatever their other properties, report the same complexity in the metadata of their
  answers 200.
\<close>

theorem reported_complexity_deterministic:
  assumes "own_prop b1 ''messages'' = own_prop b2 ''messages''"
    and "own_prop b1 ''complexity'' = own_prop b2 ''complexity''"
    and "fst (handle e1 (PostGenerate b1) (snd (serve history1 s1))) = Generate g1"
    and "fst (handle e2 (PostGenerate b2) (snd (serve history2 s2))) = Generate g2"
    and "code g1 = 200" and "code g2 = 200"
  shows "metadata_field g1 ''complexity'' = metadata_field g2 ''complexity''"
proof -
  from assms(3) have g1: "g1 = fst (post_generate e1 b1 s1)"
    by (simp add: handle_generate [where ?s0.0 = s1])
  from assms(4) have g2: "g2 = fst (post_generate e2 b2 s2)"
    by (simp add: handle_generate [where ?s0.0 = s2])
  from assms(5) g1 have "code (fst (post_generate e1 b1 s1)) = 200" by simp
  from post_generate_success [OF this] g1
  have m1: "metadata_field g1 ''complexity'' = own_prop b1 ''complexity''" by auto
  from assms(6) g2 have "code (fst (post_generate e2 b2 s2)) = 200" by simp
  from post_generate_success [OF this] g2
  have m2: "metadata_field g2 ''complexity'' = own_prop b2 ''complexity''" by auto
  from m1 m2 assms(2) show ?thesis by simp
qed

theorem reported_complexity_deterministic_witness:
  "own_prop (generate_body (JNum 1) [(''complexity'', JStr ''low'')]) ''messages''
     = own_prop (generate_body (JNum 1) [(''complexity'', JStr ''low''), (''forceFresh'', JBool True)]) ''messages''
   \<and> fst (handle sample_io (PostGenerate (generate_body (JNum 1) [(''complexity'', JStr ''low'')]))
           (snd (serve [] empty_log)))
       = Generate (fst (post_generate sample_io (generate_body (JNum 1) [(''complexity'', JStr ''low'')]) empty_log))
   \<and> fst (handle sample_io (PostGenerate (generate_body (JNum 1) [(''complexity'', JStr ''low''), (''forceFresh'', JBool True)]))
           (snd (serve sample_traffic empty_log)))
       = Generate (fst (post_generate sample_io (generate_body (JNum 1) [(''complexity'', JStr ''low''), (''forceFresh'', JBool True)]) empty_log))
   \<and> metadata_field (fst (post_generate sample_io (generate_body (JNum 1) [(''complexity'', JStr ''low'')]) empty_log)) ''complexity''
       = metadata_field (fst (post_generate sample_io (generate_body (JNum 1) [(''complexity'', JStr ''low''), (''forceFresh'', JBool True)]) empty_log)) ''complexity''"
proof -
  let ?b1 = "generate_body (JNum 1) [(''complexity'', JStr ''low'')]"
  let ?b2 = "generate_body (JNum 1) [(''complexity'', JStr ''low''), (''forceFresh'', JBool True)]"
  have m: "own_prop ?b1 ''messages'' = own_prop ?b2 ''messages''" by (simp add: generate_body_def)
  have c: "own_prop ?b1 ''complexity'' = own_prop ?b2 ''complexity''" by (simp add: generate_body_def)
  have h1: "fst (handle sample_io (PostGenerate ?b1) (snd (serve [] empty_log)))
              = Generate (fst (post_generate sample_io ?b1 empty_log))"
    by (rule handle_generate)
  have h2: "fst (handle sample_io (PostGenerate ?b2) (snd (serve sample_traffic empty_log)))
              = Generate (fst (post_generate sample_io ?b2 empty_log))"
    by (rule handle_generate)
  have ok1: "code (fst (post_generate sample_io ?b1 empty_log)) = 200"
    by (simp add: sample_generate_ok printable_def)
  have ok2: "code (fst (post_generate sample_io ?b2 empty_log)) = 200"
    by (simp add: sample_generate_ok printable_def)
  from reported_complexity_deterministic [OF m c h1 h2 ok1 ok2] m h1 h2 show ?thesis by simp
qed

section \<open>GET /stats and the queue\<close>

text \<open>
  C6. In every sequence of requests, every \<^verbatim>\<open>GET /stats\<close> reports the critical queue
  size 0, and the answer to a \<^verbatim>\<open>POST /generate\<close> of priority critical never carries a
  \<^verbatim>\<open>queued\<close> property, at the top of its body or in its metadata, so \<^verbatim>\<open>queued\<close> is
  never true for it.
\<close>

theorem critical_never_queued:
  assumes "i < length reqs"
  shows "(snd (reqs ! i) = GetStats \<longrightarrow>
            (\<exists>r. fst (serve reqs s) ! i = Stats r \<and> critical (queueSizes (body r)) = 0))
       \<and> (\<forall>b. snd (reqs ! i) = PostGenerate b \<and> own_prop b ''priority'' = Some (JStr ''critical'') \<longrightarrow>
            (\<exists>g. fst (serve reqs s) ! i = Generate g
                 \<and> body_field g ''queued'' = None \<and> metadata_field g ''queued'' = None))"
proof -
  from serve_nth [OF assms, of s] obtain s' where
    n: "fst (serve reqs s) ! i = fst (handle (fst (reqs ! i)) (snd (reqs ! i)) s')" by blast
  show ?thesis
  proof (intro conjI allI impI)
    assume "snd (reqs ! i) = GetStats"
    with n have "fst (serve reqs s) ! i = Stats (get_stats (fst (reqs ! i)))"
      by (simp add: handle_stats)
    moreover have "critical (queueSizes (body (get_stats (fst (reqs ! i))))) = 0"
      by (simp add: get_stats_def)
    ultimately show "\<exists>r. fst (serve reqs s) ! i = Stats r \<and> critical (queueSizes (body r)) = 0"
      by blast
  next
    fix b
    assume "snd (reqs ! i) = PostGenerate b \<and> own_prop b ''priority'' = Some (JStr ''critical'')"
    with n have "fst (serve reqs s) ! i = Generate (fst (post_generate (fst (reqs ! i)) b s))"
      by (simp add: handle_generate [where ?s0.0 = s])
    with not_queued [of "fst (reqs ! i)" b s]
    show "\<exists>g. fst (serve reqs s) ! i = Generate g
                 \<and> body_field g ''queued'' = None \<and> metadata_field g ''queued'' = None"
      by blast
  qed
qed

theorem critical_never_queued_witness:
  "snd (sample_traffic ! 1) = GetStats
   \<and> fst (serve sample_traffic empty_log) ! 1 = Stats (get_stats sample_io)
   \<and> critical (queueSizes (body (get_stats sample_io))) = 0
   \<and> snd (sample_traffic ! 0) = PostGenerate (generate_body (JNum 1)
         [(''priority'', JStr ''critical''), (''forceFresh'', JBool True)])
   \<and> own_prop (generate_body (JNum 1)
         [(''priority'', JStr ''critical''), (''forceFresh'', JBool True)]) ''priority''
       = Some (JStr ''critical'')
   \<and> fst (serve sample_traffic empty_log) ! 0
       = Generate (fst (post_generate sample_io (generate_body (JNum 1)
                    [(''priority'', JStr ''critical''), (''forceFresh'', JBool True)]) empty_log))
   \<and> code (fst (post_generate sample_io (generate_body (JNum 1)
                    [(''priority'', JStr ''critical''), (''forceFresh'', JBool True)]) empty_log)) = 200
   \<and> body_field (fst (post_generate sample_io (generate_body (JNum 1)
                    [(''priority'', JStr ''critical''), (''forceFresh'', JBool True)]) empty_log))
        ''queued'' = None"
proof -
  let ?b = "generate_body (JNum 1) [(''priority'', JStr ''critical''), (''forceFresh'', JBool True)]"
  have len: "0 < length sample_traffic" "1 < length sample_traffic"
    by (simp_all add: sample_traffic_def)
  have r0: "snd (sample_traffic ! 0) = PostGenerate ?b" and r1: "snd (sample_traffic ! 1) = GetStats"
    by (simp_all add: sample_traffic_def)
  have p: "own_prop ?b ''priority'' = Some (JStr ''critical'')" by (simp add: generate_body_def)
  have ok: "code (fst (post_generate sample_io ?b empty_log)) = 200"
    by (simp add: sample_generate_ok printable_def)
  from critical_never_queued [OF len(1), of empty_log] r0 p
  have q: "\<exists>g. fst (serve sample_traffic empty_log) ! 0 = Generate g \<and> body_field g ''queued'' = None"
    by blast
  from critical_never_queued [OF len(2), of empty_log] r1
  have c: "\<exists>r. fst (serve sample_traffic empty_log) ! 1 = Stats r \<and> critical (queueSizes (body r)) = 0"
    by blast
  from q c r0 r1 p ok show ?thesis by (simp add: sample_traffic_answers)
qed

text \<open>
  C10. In every sequence of requests, whatever \<^verbatim>\<open>POST /generate\<close> traffic comes before,
  \<^verbatim>\<open>GET /stats\<close> answers the same fixed values: the four queue sizes 0, cache hits 25,
  misses 10, size 35 (disk size 15, fingerprint hits 5), no active prompt, and no batch
  in process.
\<close>

theorem stats_are_fixed:
  assumes "i < length reqs" and "snd (reqs ! i) = GetStats"
  shows "\<exists>r. fst (serve reqs s) ! i = Stats r
           \<and> code r = 200
           \<and> queueSizes (body r) = \<lparr>critical = 0, high = 0, normal = 0, low = 0\<rparr>
           \<and> hits (cache (body r)) = 25 \<and> misses (cache (body r)) = 10
           \<and> cache_size (cache (body r)) = 35
           \<and> diskSize (cache (body r)) = 15 \<and> fingerprintHits (cache (body r)) = 5
           \<and> activePrompts (body r) = 0 \<and> isProcessingBatch (body r) = False"
proof -
  from serve_nth [OF assms(1), of s] obtain s' where
    "fst (serve reqs s) ! i = fst (handle (fst (reqs ! i)) (snd (reqs ! i)) s')" by blast
  with assms(2) have "fst (serve reqs s) ! i = Stats (get_stats (fst (reqs ! i)))"
    by (simp add: handle_stats)
  then show ?thesis by (simp add: get_stats_def)
qed

theorem stats_are_fixed_witness:
  "snd (sample_traffic ! 1) = GetStats
   \<and> fst (serve sample_traffic empty_log) ! 1 = Stats (get_stats sample_io)
   \<and> queueSizes (body (get_stats sample_io)) = \<lparr>critical = 0, high = 0, normal = 0, low = 0\<rparr>
   \<and> hits (cache (body (get_stats sample_io))) = 25
   \<and> misses (cache (body (get_stats sample_io))) = 10
   \<and> cache_size (cache (body (get_stats sample_io))) = 35
   \<and> activePrompts (body (get_stats sample_io)) = 0
   \<and> isProcessingBatch (body (get_stats sample_io)) = False"
proof -
  have len: "1 < length sample_traffic" by (simp add: sample_traffic_def)
  have r1: "snd (sample_traffic ! 1) = GetStats" by (simp add: sample_traffic_def)
  from stats_are_fixed [OF len r1, of empty_log] r1 show ?thesis
    by (auto simp: sample_traffic_answers)
qed

end
